theory Spec2Isabelle
  imports Main "HOL-Library.Log_Nat"
begin

section \<open>JavaScript numbers\<close>

text \<open>
  A JavaScript number is an IEEE 754 double. A finite double is represented by the
  rational it denotes; \<open>NaN\<close> and the two infinities are separate values. Negative zero is
  identified with zero: the components below only compare, multiply, divide and print
  numbers, and none of these tells the two zeros apart in what is displayed.
\<close>

datatype jsnum = Fin rat | NaN | Infinity bool

text \<open>
  \<open>ilog2 a\<close> is the binary exponent of a positive rational: \<open>2 ^ e \<le> a < 2 ^ (e + 1)\<close>.
  The bit lengths of numerator and denominator give it up to one.
\<close>

definition ilog2_adjust :: "rat \<Rightarrow> int \<Rightarrow> int" where
  "ilog2_adjust a e0 = (if 2 powi e0 \<le> a then e0 else e0 - 1)"

definition ilog2 :: "rat \<Rightarrow> int" where
  "ilog2 a = ilog2_adjust a (bitlen (fst (quotient_of a)) - bitlen (snd (quotient_of a)))"

text \<open>Rounding to the nearest integer, ties to the even one.\<close>

definition round_tie :: "int \<Rightarrow> rat \<Rightarrow> int" where
  "round_tie f d =
     (if d < 1 / 2 then f
      else if 1 / 2 < d then f + 1
      else if even f then f else f + 1)"

definition round_even :: "rat \<Rightarrow> int" where
  "round_even q = round_tie \<lfloor>q\<rfloor> (q - of_int \<lfloor>q\<rfloor>)"

text \<open>
  \<open>fl q\<close> is the double nearest to the rational \<open>q\<close> (round to nearest, ties to even):
  53 significant bits, the exponent of the last place not below \<open>-1074\<close> (subnormals),
  and overflow to infinity. It is the result of every arithmetic operation of the language
  on the exact result \<open>q\<close>, and the value of a decimal literal. The largest finite
  double is \<open>(2 ^ 53 - 1) * 2 ^ 971\<close>: a significand \<open>n \<le> 2 ^ 53\<close> at the exponent
  \<open>e\<close> of the last place overflows when \<open>971 < e\<close>, or \<open>e = 971\<close> and \<open>n = 2 ^ 53\<close>.
\<close>

definition fl_pack :: "int \<Rightarrow> int \<Rightarrow> jsnum" where
  "fl_pack e n =
     (if 971 < e \<or> (e = 971 \<and> 2 ^ 53 \<le> n) then Infinity True
      else Fin (of_int n * 2 powi e))"

definition fl_at :: "int \<Rightarrow> rat \<Rightarrow> jsnum" where
  "fl_at e a = fl_pack e (round_even (a / 2 powi e))"

definition fl_pos :: "rat \<Rightarrow> jsnum" where
  "fl_pos a = fl_at (max (ilog2 a - 52) (- 1074)) a"

definition js_neg :: "jsnum \<Rightarrow> jsnum" where
  "js_neg x = (case x of Fin q \<Rightarrow> Fin (- q) | NaN \<Rightarrow> NaN | Infinity s \<Rightarrow> Infinity (\<not> s))"

definition fl :: "rat \<Rightarrow> jsnum" where
  "fl q = (if q = 0 then Fin 0 else if 0 < q then fl_pos q else js_neg (fl_pos (- q)))"

text \<open>The operators \<open>*\<close>, \<open>/\<close> and \<open>></\<close> on numbers.\<close>

fun js_mul :: "jsnum \<Rightarrow> jsnum \<Rightarrow> jsnum" where
  "js_mul (Fin a) (Fin b) = fl (a * b)"
| "js_mul NaN _ = NaN"
| "js_mul _ NaN = NaN"
| "js_mul (Infinity s) (Fin b) = (if b = 0 then NaN else Infinity (s = (0 < b)))"
| "js_mul (Fin a) (Infinity s) = (if a = 0 then NaN else Infinity (s = (0 < a)))"
| "js_mul (Infinity s) (Infinity t) = Infinity (s = t)"

fun js_div :: "jsnum \<Rightarrow> jsnum \<Rightarrow> jsnum" where
  "js_div (Fin a) (Fin b) =
     (if b = 0 then (if a = 0 then NaN else Infinity (0 < a)) else fl (a / b))"
| "js_div NaN _ = NaN"
| "js_div _ NaN = NaN"
| "js_div (Infinity s) (Fin b) = Infinity (s = (0 \<le> b))"
| "js_div (Fin a) (Infinity s) = Fin 0"
| "js_div (Infinity s) (Infinity t) = NaN"

fun js_gt :: "jsnum \<Rightarrow> jsnum \<Rightarrow> bool" where
  "js_gt (Fin a) (Fin b) = (b < a)"
| "js_gt NaN _ = False"
| "js_gt _ NaN = False"
| "js_gt (Infinity s) (Fin b) = s"
| "js_gt (Fin a) (Infinity s) = (\<not> s)"
| "js_gt (Infinity s) (Infinity t) = (s \<and> \<not> t)"

text \<open>Truthiness of a number: zero and \<open>NaN\<close> are falsy.\<close>

fun num_truthy :: "jsnum \<Rightarrow> bool" where
  "num_truthy (Fin q) = (q \<noteq> 0)"
| "num_truthy NaN = False"
| "num_truthy (Infinity s) = True"

section \<open>Values put on the page\<close>

text \<open>
  What a component hands to the page is a string, a number (which the page prints with the
  language's number-to-string conversion) or a string with characters outside ASCII,
  given by its Unicode code points. \<open>JNumStr x\<close> is the string that the number-to-string
  conversion gives for \<open>x\<close>; the conversion itself (shortest digits that read back as the
  same double) is not computed here.
\<close>

datatype jsval = JStr string | JNum jsnum | JNumStr jsnum | JUni "nat list"

type_synonym children = "jsval list"

text \<open>The decimal digits of an integer that is not negative.\<close>

definition digit_char :: "int \<Rightarrow> char" where
  "digit_char d =
     (if d = 0 then CHR ''0'' else if d = 1 then CHR ''1'' else if d = 2 then CHR ''2''
      else if d = 3 then CHR ''3'' else if d = 4 then CHR ''4'' else if d = 5 then CHR ''5''
      else if d = 6 then CHR ''6'' else if d = 7 then CHR ''7'' else if d = 8 then CHR ''8''
      else CHR ''9'')"

function dec :: "int \<Rightarrow> string" where
  "dec n = (if n < 10 then [digit_char n] else dec (n div 10) @ [digit_char (n mod 10)])"
  by pat_completeness auto
termination
  by (relation "measure nat") auto

declare dec.simps [simp del]

text \<open>
  \<open>Number.prototype.toFixed(f)\<close> after ECMA-262: a non-finite number prints as the
  number-to-string conversion does; a number of magnitude \<open>10 ^ 21\<close> or more too;
  otherwise \<open>n\<close> is the integer nearest to \<open>x * 10 ^ f\<close>, the larger one on a tie, its
  digits are padded with zeros on the left to \<open>f + 1\<close> places and the point is put before
  the last \<open>f\<close> of them. The components call it with \<open>f\<close> equal to 1 or 2, inside the
  allowed range.
\<close>

definition pad_zeros :: "nat \<Rightarrow> string \<Rightarrow> string" where
  "pad_zeros f m = (if length m \<le> f then replicate (f + 1 - length m) (CHR ''0'') @ m else m)"

definition put_point :: "nat \<Rightarrow> string \<Rightarrow> string" where
  "put_point f m =
     (if f = 0 then m else take (length m - f) m @ ''.'' @ drop (length m - f) m)"

definition toFixed_digits :: "nat \<Rightarrow> rat \<Rightarrow> string" where
  "toFixed_digits f a = put_point f (pad_zeros f (dec \<lfloor>a * 10 ^ f + 1 / 2\<rfloor>))"

fun toFixed :: "nat \<Rightarrow> jsnum \<Rightarrow> jsval" where
  "toFixed f NaN = JStr ''NaN''"
| "toFixed f (Infinity s) = JStr (if s then ''Infinity'' else ''-Infinity'')"
| "toFixed f (Fin q) =
     (if 10 ^ 21 \<le> \<bar>q\<bar> then JNumStr (Fin q)
      else JStr ((if q < 0 then ''-'' else '''') @ toFixed_digits f \<bar>q\<bar>))"

section \<open>The Detection Result\<close>

text \<open>
  The payload of a detection response, as the components read it. Every field is
  optional: \<open>None\<close> is a key that the payload does not have (the components then read
  \<open>undefined\<close>); a field that is there has the type the data contract gives it. The
  entries of \<open>individual_results\<close> and of \<open>model_breakdown\<close> are objects read
  through the same keys; \<open>model_confidence\<close> is the key \<open>confidence\<close> of an entry.
\<close>

record model_entry =
  model :: "string option"
  prediction :: "string option"
  model_confidence :: "jsnum option"
  fake_frame_count :: "jsnum option"
  real_frame_count :: "jsnum option"

record analysis_info =
  total_frames_analyzed :: "jsnum option"
  fake_frames :: "jsnum option"
  real_frames :: "jsnum option"
  uncertain_frames :: "jsnum option"

record video_info_rec =
  duration :: "jsnum option"
  fps :: "jsnum option"
  resolution :: "string option"

record detection_result =
  success :: "bool option"
  error :: "string option"
  verdict :: "string option"
  confidence :: "jsnum option"
  fake_probability :: "jsnum option"
  real_probability :: "jsnum option"
  agreement_level :: "string option"
  individual_results :: "model_entry list option"
  recommendation :: "string option"
  analysis :: "analysis_info option"
  video_info :: "video_info_rec option"
  processing_time_seconds :: "jsnum option"
  model_breakdown :: "model_entry list option"
  suspicious_frames :: "jsnum list option"
  confidence_timeline :: "jsnum list option"

text \<open>The payload with no key at all, to build examples from.\<close>

definition empty_result :: detection_result where
  "empty_result =
     \<lparr>success = None, error = None, verdict = None, confidence = None,
      fake_probability = None, real_probability = None, agreement_level = None,
      individual_results = None, recommendation = None, analysis = None,
      video_info = None, processing_time_seconds = None, model_breakdown = None,
      suspicious_frames = None, confidence_timeline = None\<rparr>"

text \<open>
  An entry of \<open>individual_results\<close> as the data contract gives it: the model's name,
  its prediction and its confidence.
\<close>

definition image_entry :: "string \<times> string \<times> jsnum \<Rightarrow> model_entry" where
  "image_entry e =
     \<lparr>model = Some (fst e), prediction = Some (fst (snd e)), model_confidence = Some (snd (snd e)),
      fake_frame_count = None, real_frame_count = None\<rparr>"

section \<open>Reading values the way the language does\<close>

text \<open>
  A member call on \<open>undefined\<close> throws a \<open>TypeError\<close>; optional chaining \<open>a?.b\<close>
  gives \<open>undefined\<close> instead; \<open>a || b\<close> takes \<open>b\<close> when \<open>a\<close> is falsy (\<open>undefined\<close>,
  zero, \<open>NaN\<close>, the empty string); a number operand that is \<open>undefined\<close> becomes
  \<open>NaN\<close>. A child of an element that is \<open>undefined\<close> or \<open>false\<close> shows nothing; in a
  template literal \<open>undefined\<close> is spelled out.
\<close>

datatype jserror = TypeError

definition member_toFixed :: "nat \<Rightarrow> jsnum option \<Rightarrow> jserror + jsval" where
  "member_toFixed f x = (case x of None \<Rightarrow> Inl TypeError | Some n \<Rightarrow> Inr (toFixed f n))"

fun map_rows :: "('a \<Rightarrow> jserror + 'b) \<Rightarrow> 'a list \<Rightarrow> jserror + 'b list" where
  "map_rows f [] = Inr []"
| "map_rows f (x # xs) =
     (case f x of
        Inl e \<Rightarrow> Inl e
      | Inr y \<Rightarrow> (case map_rows f xs of Inl e \<Rightarrow> Inl e | Inr ys \<Rightarrow> Inr (y # ys)))"

definition member_map :: "('a \<Rightarrow> jserror + 'b) \<Rightarrow> 'a list option \<Rightarrow> jserror + 'b list" where
  "member_map f xs = (case xs of None \<Rightarrow> Inl TypeError | Some l \<Rightarrow> map_rows f l)"

definition opt_chain :: "'a option \<Rightarrow> ('a \<Rightarrow> 'b option) \<Rightarrow> 'b option" where
  "opt_chain obj key = (case obj of None \<Rightarrow> None | Some x \<Rightarrow> key x)"

definition or_zero :: "jsnum option \<Rightarrow> jsnum" where
  "or_zero x = (case x of None \<Rightarrow> Fin 0 | Some n \<Rightarrow> if num_truthy n then n else Fin 0)"

definition or_text_num :: "jsnum option \<Rightarrow> string \<Rightarrow> jsval" where
  "or_text_num x d = (case x of None \<Rightarrow> JStr d | Some n \<Rightarrow> if num_truthy n then JNum n else JStr d)"

definition or_text :: "string option \<Rightarrow> string \<Rightarrow> string" where
  "or_text x d = (case x of None \<Rightarrow> d | Some s \<Rightarrow> if s \<noteq> [] then s else d)"

definition to_number :: "jsnum option \<Rightarrow> jsnum" where
  "to_number x = (case x of None \<Rightarrow> NaN | Some n \<Rightarrow> n)"

definition child_str :: "string option \<Rightarrow> children" where
  "child_str x = (case x of None \<Rightarrow> [] | Some s \<Rightarrow> [JStr s])"

definition child_num :: "jsnum option \<Rightarrow> children" where
  "child_num x = (case x of None \<Rightarrow> [] | Some n \<Rightarrow> [JNum n])"

definition tpl_num :: "jsnum option \<Rightarrow> jsval" where
  "tpl_num x = (case x of None \<Rightarrow> JStr ''undefined'' | Some n \<Rightarrow> JNumStr n)"

section \<open>The image result renderer: component Results\<close>

text \<open>
  The three \<open>switch\<close> functions of the component. The icons are the characters
  U+1F534 (large red circle), U+1F7E2 (large green circle), U+1F7E1 (large yellow circle)
  and U+26AA (medium white circle).
\<close>

definition getVerdictVariant :: "string option \<Rightarrow> string" where
  "getVerdictVariant v =
     (if v = Some ''FAKE'' then ''danger''
      else if v = Some ''REAL'' then ''success''
      else if v = Some ''UNCERTAIN'' then ''warning''
      else ''secondary'')"

definition Results_getVerdictIcon :: "string option \<Rightarrow> nat list" where
  "Results_getVerdictIcon v =
     (if v = Some ''FAKE'' then [0x1F534]
      else if v = Some ''REAL'' then [0x1F7E2]
      else if v = Some ''UNCERTAIN'' then [0x1F7E1]
      else [0x26AA])"

definition getAgreementBadge :: "string option \<Rightarrow> string" where
  "getAgreementBadge level =
     (if level = Some ''HIGH'' then ''success''
      else if level = Some ''MEDIUM'' then ''warning''
      else if level = Some ''LOW'' then ''danger''
      else ''secondary'')"

text \<open>
  What the component computes for the page, one field for each expression of its
  markup: the heading (icon, a space, the verdict), the confidence line, the agreement
  badge, the two segments of the proportion bar, one card for each model, and the
  recommendation.
\<close>

record model_card =
  card_name :: children
  card_badge_bg :: string
  card_badge :: children
  card_confidence :: children

record results_view =
  heading :: children
  confidence_line :: children
  agreement_bg :: string
  agreement_badge :: children
  fake_now :: jsnum
  fake_label :: children
  real_now :: jsnum
  real_label :: children
  model_cards :: "model_card list"
  recommendation_text :: children

definition Results_model_card :: "model_entry \<Rightarrow> jserror + model_card" where
  "Results_model_card m =
     (case member_toFixed 1 (model_confidence m) of
        Inl e \<Rightarrow> Inl e
      | Inr c \<Rightarrow>
          Inr \<lparr>card_name = child_str (model m),
               card_badge_bg = getVerdictVariant (prediction m),
               card_badge = child_str (prediction m),
               card_confidence = [c, JStr ''%'']\<rparr>)"

definition Results :: "detection_result \<Rightarrow> jserror + results_view" where
  "Results r =
     (case member_toFixed 2 (confidence r) of
        Inl e \<Rightarrow> Inl e
      | Inr c \<Rightarrow>
          (case member_map Results_model_card (individual_results r) of
             Inl e \<Rightarrow> Inl e
           | Inr cards \<Rightarrow>
               Inr \<lparr>heading = [JUni (Results_getVerdictIcon (verdict r)), JStr '' ''] @ child_str (verdict r),
                    confidence_line = [JStr ''Confidence: '', c, JStr ''%''],
                    agreement_bg = getAgreementBadge (agreement_level r),
                    agreement_badge = JStr ''Agreement: '' # child_str (agreement_level r),
                    fake_now = js_mul (to_number (fake_probability r)) (Fin 100),
                    fake_label = [toFixed 1 (js_mul (to_number (fake_probability r)) (Fin 100)), JStr ''% Fake''],
                    real_now = js_mul (to_number (real_probability r)) (Fin 100),
                    real_label = [toFixed 1 (js_mul (to_number (real_probability r)) (Fin 100)), JStr ''% Real''],
                    model_cards = cards,
                    recommendation_text = child_str (recommendation r)\<rparr>))"

section \<open>The video result renderer: component VideoResults\<close>

text \<open>
  Its three \<open>switch\<close> functions. The icons are U+26A0 U+FE0F (warning sign, emoji
  presentation), U+2713 (check mark), a question mark, and the empty string.
\<close>

definition getVerdictColor :: "string option \<Rightarrow> string" where
  "getVerdictColor v =
     (if v = Some ''FAKE'' then ''danger''
      else if v = Some ''REAL'' then ''success''
      else if v = Some ''UNCERTAIN'' then ''warning''
      else ''secondary'')"

definition VideoResults_getVerdictIcon :: "string option \<Rightarrow> nat list" where
  "VideoResults_getVerdictIcon v =
     (if v = Some ''FAKE'' then [0x26A0, 0xFE0F]
      else if v = Some ''REAL'' then [0x2713]
      else if v = Some ''UNCERTAIN'' then [0x3F]
      else [])"

definition getAgreementColor :: "string option \<Rightarrow> string" where
  "getAgreementColor level =
     (if level = Some ''HIGH'' then ''success''
      else if level = Some ''MEDIUM'' then ''warning''
      else if level = Some ''LOW'' then ''danger''
      else ''secondary'')"

text \<open>The frame counts and the two percentages, computed before the markup.\<close>

definition totalFrames :: "detection_result \<Rightarrow> jsnum" where
  "totalFrames r = or_zero (opt_chain (analysis r) total_frames_analyzed)"

definition fakeFrames :: "detection_result \<Rightarrow> jsnum" where
  "fakeFrames r = or_zero (opt_chain (analysis r) fake_frames)"

definition realFrames :: "detection_result \<Rightarrow> jsnum" where
  "realFrames r = or_zero (opt_chain (analysis r) real_frames)"

definition uncertainFrames :: "detection_result \<Rightarrow> jsnum" where
  "uncertainFrames r = or_zero (opt_chain (analysis r) uncertain_frames)"

definition fakePercent :: "detection_result \<Rightarrow> jsval" where
  "fakePercent r =
     (if js_gt (totalFrames r) (Fin 0)
      then toFixed 1 (js_mul (js_div (fakeFrames r) (totalFrames r)) (Fin 100))
      else JNum (Fin 0))"

definition realPercent :: "detection_result \<Rightarrow> jsval" where
  "realPercent r =
     (if js_gt (totalFrames r) (Fin 0)
      then toFixed 1 (js_mul (js_div (realFrames r) (totalFrames r)) (Fin 100))
      else JNum (Fin 0))"

text \<open>
  The panels. A panel behind a guard \<open>x && x.length > 0 && (...)\<close> is \<open>None\<close> when the
  guard stops it.
\<close>

record breakdown_row =
  row_model :: children
  row_badge_bg :: string
  row_badge :: children
  row_confidence :: children
  row_fake_frames :: children
  row_real_frames :: children

record suspicious_panel =
  suspicious_count :: nat
  suspicious_badges :: "children list"

record timeline_bar =
  bar_height :: children
  bar_color :: string
  bar_title :: children

record timeline_panel =
  bars :: "timeline_bar list"
  last_frame :: children

record video_view =
  video_icon :: children
  video_heading_class :: string
  video_heading :: children
  video_confidence :: children
  video_bar_now :: "jsnum option"
  video_bar_variant :: string
  video_bar_label :: children
  video_agreement_bg :: string
  video_agreement :: children
  video_frames_badge :: children
  info_duration :: children
  info_fps :: children
  info_resolution :: children
  info_processing_time :: children
  fake_frames_line :: children
  fake_frames_now :: jsval
  real_frames_line :: children
  real_frames_now :: jsval
  uncertain_line :: "children option"
  breakdown_panel :: "breakdown_row list option"
  suspicious :: "suspicious_panel option"
  timeline :: "timeline_panel option"

definition VideoResults_row :: "model_entry \<Rightarrow> jserror + breakdown_row" where
  "VideoResults_row m =
     Inr \<lparr>row_model = child_str (model m),
          row_badge_bg = getVerdictColor (prediction m),
          row_badge = child_str (prediction m),
          row_confidence = child_num (model_confidence m) @ [JStr ''%''],
          row_fake_frames = child_num (fake_frame_count m),
          row_real_frames = child_num (real_frame_count m)\<rparr>"

definition VideoResults_breakdown :: "detection_result \<Rightarrow> jserror + breakdown_row list option" where
  "VideoResults_breakdown r =
     (case model_breakdown r of
        None \<Rightarrow> Inr None
      | Some l \<Rightarrow>
          if 0 < length l
          then (case member_map VideoResults_row (model_breakdown r) of
                  Inl e \<Rightarrow> Inl e
                | Inr rows \<Rightarrow> Inr (Some rows))
          else Inr None)"

definition VideoResults_badge :: "jsnum \<Rightarrow> jserror + children" where
  "VideoResults_badge frameIdx = Inr [JStr ''Frame '', JNum frameIdx]"

definition VideoResults_suspicious :: "detection_result \<Rightarrow> jserror + suspicious_panel option" where
  "VideoResults_suspicious r =
     (case suspicious_frames r of
        None \<Rightarrow> Inr None
      | Some l \<Rightarrow>
          if 0 < length l
          then (case member_map VideoResults_badge (suspicious_frames r) of
                  Inl e \<Rightarrow> Inl e
                | Inr bs \<Rightarrow> Inr (Some \<lparr>suspicious_count = length l, suspicious_badges = bs\<rparr>))
          else Inr None)"

definition VideoResults_bar :: "nat \<times> jsnum \<Rightarrow> jserror + timeline_bar" where
  "VideoResults_bar ic =
     (case member_toFixed 1 (Some (snd ic)) of
        Inl e \<Rightarrow> Inl e
      | Inr t \<Rightarrow>
          Inr \<lparr>bar_height = [JNumStr (snd ic), JStr ''%''],
               bar_color =
                 (if js_gt (snd ic) (Fin 70) then ''#dc3545''
                  else if js_gt (snd ic) (Fin 50) then ''#ffc107''
                  else ''#198754''),
               bar_title = [JStr ''Frame '', JNumStr (Fin (of_nat (fst ic))), JStr '': '', t, JStr ''%'']\<rparr>)"

definition VideoResults_timeline :: "detection_result \<Rightarrow> jserror + timeline_panel option" where
  "VideoResults_timeline r =
     (case confidence_timeline r of
        None \<Rightarrow> Inr None
      | Some l \<Rightarrow>
          if 0 < length l
          then (case member_map VideoResults_bar
                       (map_option (\<lambda>xs. zip [0 ..< length xs] xs) (confidence_timeline r)) of
                  Inl e \<Rightarrow> Inl e
                | Inr bs \<Rightarrow>
                    Inr (Some \<lparr>bars = bs,
                               last_frame = [JStr ''Frame '', JNum (Fin (of_nat (length l) - 1))]\<rparr>))
          else Inr None)"

definition VideoResults :: "detection_result \<Rightarrow> jserror + video_view" where
  "VideoResults r =
     (case VideoResults_breakdown r of
        Inl e \<Rightarrow> Inl e
      | Inr bp \<Rightarrow>
     (case VideoResults_suspicious r of
        Inl e \<Rightarrow> Inl e
      | Inr sp \<Rightarrow>
     (case VideoResults_timeline r of
        Inl e \<Rightarrow> Inl e
      | Inr tp \<Rightarrow>
          Inr \<lparr>video_icon = [JUni (VideoResults_getVerdictIcon (verdict r))],
               video_heading_class = ''text-'' @ getVerdictColor (verdict r),
               video_heading = child_str (verdict r) @ [JStr '' VIDEO''],
               video_confidence = child_num (confidence r) @ [JStr ''% Confidence''],
               video_bar_now = confidence r,
               video_bar_variant = getVerdictColor (verdict r),
               video_bar_label = [tpl_num (confidence r), JStr ''%''],
               video_agreement_bg = getAgreementColor (agreement_level r),
               video_agreement = child_str (agreement_level r) @ [JStr '' Frame Agreement''],
               video_frames_badge = [JNum (totalFrames r), JStr '' Frames Analyzed''],
               info_duration = [or_text_num (opt_chain (video_info r) duration) ''N/A'', JStr ''s''],
               info_fps = [or_text_num (opt_chain (video_info r) fps) ''N/A''],
               info_resolution = [JStr (or_text (opt_chain (video_info r) resolution) ''N/A'')],
               info_processing_time = [or_text_num (processing_time_seconds r) ''N/A'', JStr ''s''],
               fake_frames_line = [JNum (fakeFrames r), JStr '' ('', fakePercent r, JStr ''%)''],
               fake_frames_now = fakePercent r,
               real_frames_line = [JNum (realFrames r), JStr '' ('', realPercent r, JStr ''%)''],
               real_frames_now = realPercent r,
               uncertain_line =
                 (if js_gt (uncertainFrames r) (Fin 0) then Some [JNum (uncertainFrames r)] else None),
               breakdown_panel = bp,
               suspicious = sp,
               timeline = tp\<rparr>)))"

section \<open>Files and file intake: component UploadArea\<close>

text \<open>A file as the browser gives it: name, declared content type, size in bytes.\<close>

record file_obj =
  file_name :: string
  file_type :: string
  file_size :: nat

definition startsWith :: "string \<Rightarrow> string \<Rightarrow> bool" where
  "startsWith s p = (take (length p) s = p)"

text \<open>
  \<open>handleFile\<close> either shows an alert and returns, or calls the \<open>onFileSelect\<close> it was
  given with the file.
\<close>

datatype intake = Alert string | OnFileSelect file_obj

definition maxSize :: "bool \<Rightarrow> nat" where
  "maxSize isVideo = (if isVideo then 50 * 1024 * 1024 else 16 * 1024 * 1024)"

definition maxSizeText :: "bool \<Rightarrow> string" where
  "maxSizeText isVideo = (if isVideo then ''50MB'' else ''16MB'')"

definition handleFile :: "file_obj \<Rightarrow> intake" where
  "handleFile f =
     (if \<not> startsWith (file_type f) ''image/'' \<and> \<not> startsWith (file_type f) ''video/''
      then Alert ''Please select an image or video file''
      else if maxSize (startsWith (file_type f) ''video/'') < file_size f
      then Alert (''File too large. Maximum size is '' @ maxSizeText (startsWith (file_type f) ''video/''))
      else OnFileSelect f)"

section \<open>The HTTP client\<close>

text \<open>
  A request as the client configures it: the address, the name of the form field that
  carries the file, the content type header, and the timeout in milliseconds when one is
  set. The network answers a call by fulfilling it with the response body or by
  rejecting it with an error object, which has a \<open>response\<close> when the server answered
  (with the \<open>error\<close> string of its body, when there is one) and a \<open>request\<close> when the
  request was sent.
\<close>

record request =
  url :: string
  field :: string
  upload :: file_obj
  content_type :: string
  timeout :: "nat option"

record error_response =
  data_error :: "string option"

record axios_error =
  response :: "error_response option"
  request_sent :: bool

datatype 'a outcome = Fulfilled 'a | Rejected axios_error

record health =
  status :: "string option"
  detector_ready :: "bool option"

datatype http_call = GET string | POST request

text \<open>
  The network: the calls issued so far, in order, and what the outside answers to the
  next call, given how many came before it.
\<close>

record net =
  calls :: "http_call list"
  health_reply :: "nat \<Rightarrow> health outcome"
  detect_reply :: "nat \<Rightarrow> request \<Rightarrow> detection_result outcome"

definition axios_get :: "string \<Rightarrow> net \<Rightarrow> health outcome \<times> net" where
  "axios_get u n = (health_reply n (length (calls n)), n\<lparr>calls := calls n @ [GET u]\<rparr>)"

definition axios_post :: "request \<Rightarrow> net \<Rightarrow> detection_result outcome \<times> net" where
  "axios_post q n = (detect_reply n (length (calls n)) q, n\<lparr>calls := calls n @ [POST q]\<rparr>)"

definition API_BASE_URL :: string where
  "API_BASE_URL = ''http://localhost:5000/api''"

text \<open>\<open>checkHealth\<close> returns the body, or throws the error it caught again.\<close>

definition checkHealth :: "net \<Rightarrow> (axios_error + health) \<times> net" where
  "checkHealth n =
     (case axios_get (API_BASE_URL @ ''/health'') n of
        (Fulfilled d, n') \<Rightarrow> (Inr d, n')
      | (Rejected e, n') \<Rightarrow> (Inl e, n'))"

text \<open>
  \<open>detectImage\<close> and \<open>detectVideo\<close> return the body or throw an \<open>Error\<close>, given here
  by its message.
\<close>

definition detectImage :: "file_obj \<Rightarrow> net \<Rightarrow> (string + detection_result) \<times> net" where
  "detectImage f n =
     (case axios_post \<lparr>url = API_BASE_URL @ ''/detect'', field = ''file'', upload = f,
                       content_type = ''multipart/form-data'', timeout = None\<rparr> n of
        (Fulfilled d, n') \<Rightarrow> (Inr d, n')
      | (Rejected e, n') \<Rightarrow>
          (Inl (case response e of
                  Some resp \<Rightarrow> or_text (data_error resp) ''Detection failed''
                | None \<Rightarrow>
                    if request_sent e then ''Cannot connect to server''
                    else ''An error occurred while processing the request''), n'))"

definition detectVideo :: "file_obj \<Rightarrow> net \<Rightarrow> (string + detection_result) \<times> net" where
  "detectVideo f n =
     (case axios_post \<lparr>url = API_BASE_URL @ ''/detect_video'', field = ''video'', upload = f,
                       content_type = ''multipart/form-data'', timeout = Some 300000\<rparr> n of
        (Fulfilled d, n') \<Rightarrow> (Inr d, n')
      | (Rejected e, n') \<Rightarrow>
          (Inl (case response e of
                  Some resp \<Rightarrow> or_text (data_error resp) ''Video detection failed''
                | None \<Rightarrow>
                    if request_sent e then ''Cannot connect to server''
                    else ''An error occurred while processing the video''), n'))"

section \<open>Object URLs\<close>

text \<open>
  The browser's table of object URLs: \<open>createObjectURL\<close> gives the next URL (numbered
  from 0, \<open>blobs\<close> holding the file behind each) and \<open>revokeObjectURL\<close> releases one;
  \<open>revoked\<close> is the log of the URLs released, one entry for each call.
\<close>

record url_table =
  blobs :: "file_obj list"
  revoked :: "nat list"

definition createObjectURL :: "file_obj \<Rightarrow> url_table \<Rightarrow> nat \<times> url_table" where
  "createObjectURL f t = (length (blobs t), t\<lparr>blobs := blobs t @ [f]\<rparr>)"

definition revokeObjectURL :: "nat \<Rightarrow> url_table \<Rightarrow> url_table" where
  "revokeObjectURL u t = t\<lparr>revoked := revoked t @ [u]\<rparr>"

text \<open>How many times a URL was released, and the URLs that were created and never released.\<close>

definition releases :: "url_table \<Rightarrow> nat \<Rightarrow> nat" where
  "releases t u = count_list (revoked t) u"

definition leaked :: "url_table \<Rightarrow> nat list" where
  "leaked t = filter (\<lambda>u. releases t u = 0) [0 ..< length (blobs t)]"

text \<open>The component VideoPreview creates an object URL in its body, each time it is rendered.\<close>

definition VideoPreview :: "file_obj \<Rightarrow> url_table \<Rightarrow> nat \<times> url_table" where
  "VideoPreview f t = createObjectURL f t"

section \<open>The application controller: component App\<close>

datatype api_status = Checking | Ready | NotReady | Offline

record app_state =
  selectedFile :: "file_obj option"
  imageUrl :: "nat option"
  loading :: bool
  result :: "detection_result option"
  error_text :: "string option"
  apiStatus :: api_status

definition initial_state :: app_state where
  "initial_state =
     \<lparr>selectedFile = None, imageUrl = None, loading = False, result = None,
      error_text = None, apiStatus = Checking\<rparr>"

definition checkApiHealth :: "app_state \<times> net \<Rightarrow> app_state \<times> net" where
  "checkApiHealth sn =
     (case checkHealth (snd sn) of
        (Inr h, n') \<Rightarrow>
          ((fst sn)\<lparr>apiStatus :=
              (if status h = Some ''ok'' \<and> detector_ready h = Some True then Ready else NotReady)\<rparr>, n')
      | (Inl e, n') \<Rightarrow> ((fst sn)\<lparr>apiStatus := Offline\<rparr>, n'))"

definition handleFileSelect :: "file_obj \<Rightarrow> app_state \<times> url_table \<Rightarrow> app_state \<times> url_table" where
  "handleFileSelect f st =
     (case createObjectURL f (snd st) of
        (u, t') \<Rightarrow>
          ((fst st)\<lparr>selectedFile := Some f, imageUrl := Some u, result := None, error_text := None\<rparr>, t'))"

definition handleRemove :: "app_state \<times> url_table \<Rightarrow> app_state \<times> url_table" where
  "handleRemove st =
     ((fst st)\<lparr>selectedFile := None, imageUrl := None, result := None, error_text := None\<rparr>,
      (case imageUrl (fst st) of Some u \<Rightarrow> revokeObjectURL u (snd st) | None \<Rightarrow> snd st))"

definition isVideo :: "app_state \<Rightarrow> bool" where
  "isVideo s = (case selectedFile s of None \<Rightarrow> False | Some f \<Rightarrow> startsWith (file_type f) ''video/'')"

text \<open>
  \<open>handleAnalyze\<close> returns at once when no file is selected. Otherwise it sets loading and
  clears error and result (\<open>handleAnalyze_start\<close>), calls the client, and when the call has
  settled sets the result or the error and clears loading. The function gives the state
  at that point.
\<close>

definition handleAnalyze_start :: "app_state \<Rightarrow> app_state" where
  "handleAnalyze_start s = s\<lparr>loading := True, error_text := None, result := None\<rparr>"

definition handleAnalyze :: "app_state \<times> net \<Rightarrow> app_state \<times> net" where
  "handleAnalyze sn =
     (case selectedFile (fst sn) of
        None \<Rightarrow> sn
      | Some f \<Rightarrow>
          (case (if isVideo (fst sn) then detectVideo f (snd sn) else detectImage f (snd sn)) of
             (Inr resp, n') \<Rightarrow>
               (if success resp = Some True
                then ((handleAnalyze_start (fst sn))\<lparr>result := Some resp, loading := False\<rparr>, n')
                else ((handleAnalyze_start (fst sn))
                        \<lparr>error_text := Some (or_text (error resp) ''Detection failed''),
                         loading := False\<rparr>, n'))
           | (Inl msg, n') \<Rightarrow>
               ((handleAnalyze_start (fst sn))\<lparr>error_text := Some msg, loading := False\<rparr>, n')))"

text \<open>
  The analyze button: shown when a file is selected and there is no result, and then
  disabled while loading or when the API is not ready. \<open>None\<close> is no button.
\<close>

definition analyze_button_disabled :: "app_state \<Rightarrow> bool option" where
  "analyze_button_disabled s =
     (if selectedFile s \<noteq> None \<and> result s = None
      then Some (loading s \<or> apiStatus s \<noteq> Ready)
      else None)"

text \<open>
  Rendering App with a video file selected renders VideoPreview, which creates its URL;
  nothing else in the rendering touches the table.
\<close>

definition render :: "app_state \<times> url_table \<Rightarrow> app_state \<times> url_table" where
  "render st =
     (case selectedFile (fst st) of
        None \<Rightarrow> st
      | Some f \<Rightarrow> if isVideo (fst st) then (fst st, snd (VideoPreview f (snd st))) else st)"

section \<open>The page as a state machine\<close>

text \<open>
  The controller's state, the table of object URLs and the network, and what the user can
  do to them. The page is rendered after every change of state, and not when a handler
  leaves the state as it was (a health check that finds the status unchanged). Rendering
  the page with a result calls the result renderer of the file's category; the page has
  no error boundary, so a renderer that throws takes the whole page down, and nothing on
  it acts any more.

  A control acts only when it is on the page: the upload area is shown when no file is
  selected, and hands the file to \<open>handleFile\<close>; the remove button belongs to the image
  preview, and the button under a result removes the file too (the video preview has
  none); the analyze button is as above, and the page is rendered once while the call is
  pending; the health check runs when the page is loaded and from the retry button, which
  is shown while the API is not ready.
\<close>

definition page_throws :: "app_state \<Rightarrow> bool" where
  "page_throws s =
     (case result s of
        None \<Rightarrow> False
      | Some r \<Rightarrow> if isVideo s then isl (VideoResults r) else isl (Results r))"

record world =
  app :: app_state
  table :: url_table
  network :: net
  unmounted :: bool

datatype event = HealthCheck | Choose file_obj | ClickRemove | ClickAnalyze

definition rendered :: "app_state \<Rightarrow> url_table \<Rightarrow> net \<Rightarrow> world" where
  "rendered s t n =
     \<lparr>app = s, table = snd (render (s, t)), network = n, unmounted = page_throws s\<rparr>"

fun act :: "event \<Rightarrow> world \<Rightarrow> world" where
  "act HealthCheck w =
     (if apiStatus (app w) \<noteq> Ready
      then (case checkApiHealth (app w, network w) of
              (s, n) \<Rightarrow>
                if apiStatus s = apiStatus (app w) then w\<lparr>network := n\<rparr>
                else rendered s (table w) n)
      else w)"
| "act (Choose f) w =
     (if selectedFile (app w) = None
      then (case handleFile f of
              Alert msg \<Rightarrow> w
            | OnFileSelect g \<Rightarrow>
                (case handleFileSelect g (app w, table w) of (s, t) \<Rightarrow> rendered s t (network w)))
      else w)"
| "act ClickRemove w =
     (if selectedFile (app w) \<noteq> None \<and> (\<not> isVideo (app w) \<or> result (app w) \<noteq> None)
      then (case handleRemove (app w, table w) of (s, t) \<Rightarrow> rendered s t (network w))
      else w)"
| "act ClickAnalyze w =
     (if analyze_button_disabled (app w) = Some False
      then (case handleAnalyze (app w, network w) of
              (s, n) \<Rightarrow> rendered s (snd (render (handleAnalyze_start (app w), table w))) n)
      else w)"

definition step :: "event \<Rightarrow> world \<Rightarrow> world" where
  "step e w = (if unmounted w then w else act e w)"

fun run :: "event list \<Rightarrow> world \<Rightarrow> world" where
  "run [] w = w"
| "run (e # es) w = run es (step e w)"

definition world0 :: "net \<Rightarrow> world" where
  "world0 n =
     \<lparr>app = initial_state, table = \<lparr>blobs = [], revoked = []\<rparr>, network = n, unmounted = False\<rparr>"

section \<open>Invariants of the table of object URLs\<close>

text \<open>
  \<open>tidy\<close>: every released URL was created, no URL was released twice, and the URL the
  controller holds was created and is not released. \<open>settled\<close>: every URL created is
  released or is the one the controller holds, the controller holds none when no file is
  selected, and the selected file is not a video. \<open>image_only\<close>: no file chosen in the
  session has a video type.
\<close>

definition tidy :: "world \<Rightarrow> bool" where
  "tidy w =
     ((\<forall>u \<in> set (revoked (table w)). u < length (blobs (table w))) \<and>
      distinct (revoked (table w)) \<and>
      (\<forall>u. imageUrl (app w) = Some u \<longrightarrow>
         u < length (blobs (table w)) \<and> u \<notin> set (revoked (table w))))"

definition settled :: "world \<Rightarrow> bool" where
  "settled w =
     ((\<forall>u < length (blobs (table w)). u \<in> set (revoked (table w)) \<or> imageUrl (app w) = Some u) \<and>
      (selectedFile (app w) = None \<longrightarrow> imageUrl (app w) = None) \<and>
      \<not> isVideo (app w))"

definition image_only :: "event list \<Rightarrow> bool" where
  "image_only es = (\<forall>f. Choose f \<in> set es \<longrightarrow> \<not> startsWith (file_type f) ''video/'')"

section \<open>Example inputs\<close>

text \<open>
  A network that has seen no call and gives every health check and every detection call
  the same outcome; an image file and a video file; the error of a call that got no
  answer; and the controller's state with a file selected.
\<close>

definition net_with :: "health outcome \<Rightarrow> detection_result outcome \<Rightarrow> net" where
  "net_with h d = \<lparr>calls = [], health_reply = (\<lambda>k. h), detect_reply = (\<lambda>k q. d)\<rparr>"

definition photo :: file_obj where
  "photo = \<lparr>file_name = ''cat.png'', file_type = ''image/png'', file_size = 204800\<rparr>"

definition clip :: file_obj where
  "clip = \<lparr>file_name = ''clip.mp4'', file_type = ''video/mp4'', file_size = 5242880\<rparr>"

definition no_answer :: axios_error where
  "no_answer = \<lparr>response = None, request_sent = True\<rparr>"

definition selected :: "file_obj \<Rightarrow> app_state" where
  "selected f = initial_state\<lparr>selectedFile := Some f, imageUrl := Some 0, apiStatus := Ready\<rparr>"

text \<open>
  An image result with verdict FAKE and confidence 87.3 (the double that the literal
  denotes) and no model in \<open>individual_results\<close>; and the payload of a video found real.
\<close>

definition fake_873 :: detection_result where
  "fake_873 = empty_result\<lparr>success := Some True, verdict := Some ''FAKE'',
                confidence := Some (fl (873 / 10)), individual_results := Some []\<rparr>"

definition real_video_payload :: detection_result where
  "real_video_payload = empty_result\<lparr>success := Some True, verdict := Some ''REAL'', confidence := Some (Fin 91)\<rparr>"

text \<open>
  A network on which the API is ready and every detection call returns the given
  payload, and two sessions from the freshly loaded page: the health check, then a file
  is chosen, analysed and removed; a video in the first, an image in the second.
\<close>

definition ready_net :: "detection_result \<Rightarrow> net" where
  "ready_net p = net_with (Fulfilled \<lparr>status = Some ''ok'', detector_ready = Some True\<rparr>) (Fulfilled p)"

definition video_run :: world where
  "video_run = run [HealthCheck, Choose clip, ClickAnalyze, ClickRemove] (world0 (ready_net real_video_payload))"

definition image_run :: world where
  "image_run = run [HealthCheck, Choose photo, ClickAnalyze, ClickRemove] (world0 (ready_net fake_873))"

text \<open>The image session again, the payload now without \<open>individual_results\<close>.\<close>

definition bare_image_run :: world where
  "bare_image_run =
     run [HealthCheck, Choose photo, ClickAnalyze, ClickRemove]
       (world0 (ready_net (fake_873\<lparr>individual_results := None\<rparr>)))"

section \<open>Verdict and agreement markers\<close>

text \<open>
  The video renderer does not use the coloured circles of the image renderer: for FAKE it
  shows the warning sign, for UNCERTAIN a question mark, and for an unknown verdict no
  icon at all.
\<close>

theorem video_icon_counterexample:
  "VideoResults_getVerdictIcon (Some ''FAKE'') = [0x26A0, 0xFE0F] \<and>
   Results_getVerdictIcon (Some ''FAKE'') = [0x1F534] \<and>
   VideoResults_getVerdictIcon (Some ''FAKE'') \<noteq> Results_getVerdictIcon (Some ''FAKE'') \<and>
   VideoResults_getVerdictIcon (Some ''UNCERTAIN'') = [0x3F] \<and>
   VideoResults_getVerdictIcon (Some ''PENDING'') = []"
  by (simp add: VideoResults_getVerdictIcon_def Results_getVerdictIcon_def)

text \<open>
  Claim C9, as amended. Both renderers map the verdict to the same colour: FAKE to
  danger, REAL to success, UNCERTAIN to warning, anything else to secondary; and the
  agreement level HIGH to success, MEDIUM to warning, LOW to danger. The icons differ:
  the image renderer shows a red, green or yellow circle, and a white circle for
  anything else; the video renderer shows the warning sign, a check mark or a question
  mark, and nothing for anything else.
\<close>

theorem verdict_agreement_mapping:
  "getVerdictVariant v = getVerdictColor v \<and>
   getAgreementBadge a = getAgreementColor a \<and>
   getVerdictColor (Some ''FAKE'') = ''danger'' \<and>
   getVerdictColor (Some ''REAL'') = ''success'' \<and>
   getVerdictColor (Some ''UNCERTAIN'') = ''warning'' \<and>
   (v \<noteq> Some ''FAKE'' \<and> v \<noteq> Some ''REAL'' \<and> v \<noteq> Some ''UNCERTAIN'' \<longrightarrow>
      getVerdictColor v = ''secondary'' \<and> Results_getVerdictIcon v = [0x26AA] \<and>
      VideoResults_getVerdictIcon v = []) \<and>
   getAgreementColor (Some ''HIGH'') = ''success'' \<and>
   getAgreementColor (Some ''MEDIUM'') = ''warning'' \<and>
   getAgreementColor (Some ''LOW'') = ''danger'' \<and>
   Results_getVerdictIcon (Some ''FAKE'') = [0x1F534] \<and>
   Results_getVerdictIcon (Some ''REAL'') = [0x1F7E2] \<and>
   Results_getVerdictIcon (Some ''UNCERTAIN'') = [0x1F7E1] \<and>
   VideoResults_getVerdictIcon (Some ''FAKE'') = [0x26A0, 0xFE0F] \<and>
   VideoResults_getVerdictIcon (Some ''REAL'') = [0x2713] \<and>
   VideoResults_getVerdictIcon (Some ''UNCERTAIN'') = [0x3F]"
  by (simp add: getVerdictVariant_def getVerdictColor_def getAgreementBadge_def getAgreementColor_def
      Results_getVerdictIcon_def VideoResults_getVerdictIcon_def)

theorem verdict_agreement_mapping_witness:
  "getVerdictVariant (Some ''PENDING'') = ''secondary'' \<and>
   getVerdictColor (Some ''PENDING'') = ''secondary'' \<and>
   Results_getVerdictIcon (Some ''PENDING'') = [0x26AA] \<and>
   VideoResults_getVerdictIcon (Some ''PENDING'') = [] \<and>
   getVerdictColor None = ''secondary'' \<and>
   getAgreementBadge (Some ''LOW'') = ''danger''"
  using verdict_agreement_mapping [of "Some ''PENDING''" "Some ''LOW''"]
    verdict_agreement_mapping [of None "Some ''LOW''"]
  by simp

section \<open>Frame percentages of the video renderer\<close>

lemma percent_62: "toFixed 1 (js_mul (js_div (Fin 62) (Fin 100)) (Fin 100)) = JStr ''62.0''"
  by code_simp

lemma percent_35: "toFixed 1 (js_mul (js_div (Fin 35) (Fin 100)) (Fin 100)) = JStr ''35.0''"
  by code_simp

text \<open>
  Claim C8. For a video Detection Result whose analysis is 100 frames analysed, 62 fake,
  35 real and 3 uncertain, the video renderer computes the fake percentage as the string
  62.0 and the real percentage as the string 35.0: the quotient and the product are
  rounded as doubles, and \<open>toFixed(1)\<close> prints one decimal place.
\<close>

theorem frame_percentages_62_35:
  assumes "analysis r = Some \<lparr>total_frames_analyzed = Some (Fin 100), fake_frames = Some (Fin 62),
                               real_frames = Some (Fin 35), uncertain_frames = Some (Fin 3)\<rparr>"
  shows "fakePercent r = JStr ''62.0'' \<and> realPercent r = JStr ''35.0''"
proof -
  have t: "totalFrames r = Fin 100" and f: "fakeFrames r = Fin 62" and g: "realFrames r = Fin 35"
    using assms by (simp_all add: totalFrames_def fakeFrames_def realFrames_def opt_chain_def or_zero_def)
  have "fakePercent r = toFixed 1 (js_mul (js_div (Fin 62) (Fin 100)) (Fin 100))"
    unfolding fakePercent_def t f by (simp del: js_mul.simps js_div.simps toFixed.simps)
  moreover have "realPercent r = toFixed 1 (js_mul (js_div (Fin 35) (Fin 100)) (Fin 100))"
    unfolding realPercent_def t g by (simp del: js_mul.simps js_div.simps toFixed.simps)
  ultimately show ?thesis
    by (simp only: percent_62 percent_35)
qed

theorem frame_percentages_62_35_witness:
  "fakePercent (empty_result\<lparr>analysis := Some \<lparr>total_frames_analyzed = Some (Fin 100),
        fake_frames = Some (Fin 62), real_frames = Some (Fin 35), uncertain_frames = Some (Fin 3)\<rparr>\<rparr>)
     = JStr ''62.0'' \<and>
   realPercent (empty_result\<lparr>analysis := Some \<lparr>total_frames_analyzed = Some (Fin 100),
        fake_frames = Some (Fin 62), real_frames = Some (Fin 35), uncertain_frames = Some (Fin 3)\<rparr>\<rparr>)
     = JStr ''35.0''"
  by (rule frame_percentages_62_35) simp

text \<open>
  Claim C10. When the analysis sub-object of a video Detection Result is absent, or its
  total of analysed frames is 0, the video renderer computes the fake and the real
  percentage as the number 0: the division is behind the test that the total is
  positive. A frame count that is absent is read as 0.
\<close>

theorem percent_guard:
  "(analysis r = None \<or> opt_chain (analysis r) total_frames_analyzed = Some (Fin 0) \<longrightarrow>
      fakePercent r = JNum (Fin 0) \<and> realPercent r = JNum (Fin 0)) \<and>
   (opt_chain (analysis r) total_frames_analyzed = None \<longrightarrow> totalFrames r = Fin 0) \<and>
   (opt_chain (analysis r) fake_frames = None \<longrightarrow> fakeFrames r = Fin 0) \<and>
   (opt_chain (analysis r) real_frames = None \<longrightarrow> realFrames r = Fin 0) \<and>
   (opt_chain (analysis r) uncertain_frames = None \<longrightarrow> uncertainFrames r = Fin 0)"
  by (auto simp: fakePercent_def realPercent_def totalFrames_def fakeFrames_def realFrames_def
      uncertainFrames_def opt_chain_def or_zero_def)

theorem percent_guard_witness:
  "analysis empty_result = None \<and>
   fakePercent empty_result = JNum (Fin 0) \<and> realPercent empty_result = JNum (Fin 0) \<and>
   fakeFrames empty_result = Fin 0 \<and> uncertainFrames empty_result = Fin 0 \<and>
   opt_chain (analysis (empty_result\<lparr>analysis := Some \<lparr>total_frames_analyzed = Some (Fin 0),
        fake_frames = Some (Fin 7), real_frames = None, uncertain_frames = None\<rparr>\<rparr>))
      total_frames_analyzed = Some (Fin 0) \<and>
   fakePercent (empty_result\<lparr>analysis := Some \<lparr>total_frames_analyzed = Some (Fin 0),
        fake_frames = Some (Fin 7), real_frames = None, uncertain_frames = None\<rparr>\<rparr>) = JNum (Fin 0) \<and>
   realFrames (empty_result\<lparr>analysis := Some \<lparr>total_frames_analyzed = Some (Fin 0),
        fake_frames = Some (Fin 7), real_frames = None, uncertain_frames = None\<rparr>\<rparr>) = Fin 0"
  using percent_guard [of empty_result]
    percent_guard [of "empty_result\<lparr>analysis := Some \<lparr>total_frames_analyzed = Some (Fin 0),
        fake_frames = Some (Fin 7), real_frames = None, uncertain_frames = None\<rparr>\<rparr>"]
  by (simp add: empty_result_def opt_chain_def)

section \<open>The result renderers do not throw\<close>

lemma toFixed_873: "toFixed 2 (fl (873 / 10)) = JStr ''87.30''"
  by code_simp

text \<open>A \<open>map\<close> whose callback returns on every element returns.\<close>

lemma map_rows_total:
  assumes "\<And>x. x \<in> set xs \<Longrightarrow> \<exists>y. f x = Inr y"
  shows "\<exists>ys. map_rows f xs = Inr ys"
  using assms
proof (induction xs)
  case Nil
  show ?case by simp
next
  case (Cons x xs)
  from Cons.prems obtain y where y: "f x = Inr y" by auto
  from Cons obtain ys where ys: "map_rows f xs = Inr ys" by auto
  show ?case by (simp add: y ys)
qed

text \<open>
  Each guarded panel of the video renderer is computed without a throw, and is absent
  when its list is.
\<close>

lemma breakdown_total:
  "\<exists>p. VideoResults_breakdown r = Inr p \<and> (model_breakdown r = None \<longrightarrow> p = None)"
proof (cases "model_breakdown r")
  case None
  then show ?thesis by (simp add: VideoResults_breakdown_def)
next
  case (Some l)
  have "\<exists>ys. map_rows VideoResults_row l = Inr ys"
    by (rule map_rows_total) (simp add: VideoResults_row_def)
  then show ?thesis
    using Some by (auto simp: VideoResults_breakdown_def member_map_def)
qed

lemma suspicious_total:
  "\<exists>p. VideoResults_suspicious r = Inr p \<and> (suspicious_frames r = None \<longrightarrow> p = None)"
proof (cases "suspicious_frames r")
  case None
  then show ?thesis by (simp add: VideoResults_suspicious_def)
next
  case (Some l)
  have "\<exists>ys. map_rows VideoResults_badge l = Inr ys"
    by (rule map_rows_total) (simp add: VideoResults_badge_def)
  then show ?thesis
    using Some by (auto simp: VideoResults_suspicious_def member_map_def)
qed

lemma timeline_total:
  "\<exists>p. VideoResults_timeline r = Inr p \<and> (confidence_timeline r = None \<longrightarrow> p = None)"
proof (cases "confidence_timeline r")
  case None
  then show ?thesis by (simp add: VideoResults_timeline_def)
next
  case (Some l)
  have "\<exists>ys. map_rows VideoResults_bar (zip [0 ..< length l] l) = Inr ys"
    by (rule map_rows_total) (simp add: VideoResults_bar_def member_toFixed_def)
  then show ?thesis
    using Some by (auto simp: VideoResults_timeline_def member_map_def)
qed

lemma VideoResults_total:
  "\<exists>v. VideoResults r = Inr v \<and>
     (model_breakdown r = None \<longrightarrow> breakdown_panel v = None) \<and>
     (suspicious_frames r = None \<longrightarrow> suspicious v = None) \<and>
     (confidence_timeline r = None \<longrightarrow> timeline v = None) \<and>
     (video_info r = None \<longrightarrow>
        info_duration v = [JStr ''N/A'', JStr ''s''] \<and> info_fps v = [JStr ''N/A''] \<and>
        info_resolution v = [JStr ''N/A'']) \<and>
     (analysis r = None \<longrightarrow>
        fake_frames_now v = JNum (Fin 0) \<and> real_frames_now v = JNum (Fin 0) \<and>
        video_frames_badge v = [JNum (Fin 0), JStr '' Frames Analyzed''] \<and> uncertain_line v = None)"
proof -
  obtain bp where bp: "VideoResults_breakdown r = Inr bp" "model_breakdown r = None \<longrightarrow> bp = None"
    using breakdown_total by blast
  obtain sp where sp: "VideoResults_suspicious r = Inr sp" "suspicious_frames r = None \<longrightarrow> sp = None"
    using suspicious_total by blast
  obtain tp where tp: "VideoResults_timeline r = Inr tp" "confidence_timeline r = None \<longrightarrow> tp = None"
    using timeline_total by blast
  have info: "video_info r = None \<Longrightarrow>
      or_text_num (opt_chain (video_info r) duration) ''N/A'' = JStr ''N/A'' \<and>
      or_text_num (opt_chain (video_info r) fps) ''N/A'' = JStr ''N/A'' \<and>
      or_text (opt_chain (video_info r) resolution) ''N/A'' = ''N/A''"
    by (simp add: opt_chain_def or_text_num_def or_text_def)
  have frames: "analysis r = None \<Longrightarrow>
      fakePercent r = JNum (Fin 0) \<and> realPercent r = JNum (Fin 0) \<and> totalFrames r = Fin 0 \<and>
      uncertainFrames r = Fin 0"
    by (simp add: fakePercent_def realPercent_def totalFrames_def uncertainFrames_def
        opt_chain_def or_zero_def)
  show ?thesis
    using bp(2) sp(2) tp(2) info frames
    by (simp add: VideoResults_def bp(1) sp(1) tp(1))
qed

text \<open>The video renderer returns a view for every Detection Result.\<close>

lemma VideoResults_never_throws [simp]: "isl (VideoResults r) = False"
  using VideoResults_total [of r] by auto

text \<open>
  The image renderer on a result that has its confidence and its list of model results,
  each as the data contract gives it.
\<close>

lemma Results_cards_total:
  "\<exists>cards. map_rows Results_model_card (map image_entry es) = Inr cards \<and> length cards = length es"
proof (induction es)
  case Nil
  show ?case by simp
next
  case (Cons e es)
  then obtain cards where cards: "map_rows Results_model_card (map image_entry es) = Inr cards"
    and len: "length cards = length es" by blast
  obtain card where card: "Results_model_card (image_entry e) = Inr card"
    by (simp add: Results_model_card_def member_toFixed_def image_entry_def del: toFixed.simps)
  show ?case
    by (simp add: card cards len)
qed

lemma Results_total:
  assumes "confidence r = Some c" and "individual_results r = Some (map image_entry es)"
  shows "\<exists>v. Results r = Inr v \<and>
           heading v = [JUni (Results_getVerdictIcon (verdict r)), JStr '' ''] @ child_str (verdict r) \<and>
           confidence_line v = [JStr ''Confidence: '', toFixed 2 c, JStr ''%''] \<and>
           length (model_cards v) = length es"
proof -
  obtain cards where cards: "map_rows Results_model_card (map image_entry es) = Inr cards"
    and len: "length cards = length es"
    using Results_cards_total [of es] by blast
  show ?thesis
    using len
    by (simp add: Results_def assms member_toFixed_def member_map_def cards del: toFixed.simps)
qed

lemma Results_fake_873 [simp]: "isl (Results fake_873) = False"
  using Results_total [of fake_873 "fl (873 / 10)" "[]"]
  by (auto simp: fake_873_def empty_result_def)




text \<open>
  Beside the amended claim, a defect of the image renderer: it calls \<open>map\<close> on
  \<open>individual_results\<close> with no guard, where the video renderer tests each of its lists
  first, and so throws when the list is absent.
\<close>

lemma Results_unguarded_map:
  "individual_results (fake_873\<lparr>individual_results := None\<rparr>) = None \<and>
   Results (fake_873\<lparr>individual_results := None\<rparr>) = Inl TypeError"
  by (simp add: Results_def member_toFixed_def member_map_def fake_873_def empty_result_def
      toFixed_873 del: toFixed.simps)

section \<open>File intake\<close>

text \<open>A content type cannot begin with both category prefixes.\<close>

lemma prefix_exclusive: "\<not> (startsWith t ''image/'' \<and> startsWith t ''video/'')"
  by (auto simp: startsWith_def)

text \<open>
  Claim C5. Intake classifies a file by its declared content type. A type that is
  neither image nor video is rejected with a message, and the controller's accept path
  is not called. A file in a category whose size is above the ceiling of that category
  (16MB for an image, 50MB for a video, between three and four times the image's) is
  rejected with a message that names the ceiling. Every other file is handed to the
  controller unchanged, and only such a file is.
\<close>

theorem handleFile_contract:
  "(\<not> startsWith (file_type f) ''image/'' \<and> \<not> startsWith (file_type f) ''video/'' \<longrightarrow>
      handleFile f = Alert ''Please select an image or video file'') \<and>
   (startsWith (file_type f) ''image/'' \<and> 16 * 1024 * 1024 < file_size f \<longrightarrow>
      handleFile f = Alert ''File too large. Maximum size is 16MB'') \<and>
   (startsWith (file_type f) ''video/'' \<and> 50 * 1024 * 1024 < file_size f \<longrightarrow>
      handleFile f = Alert ''File too large. Maximum size is 50MB'') \<and>
   (startsWith (file_type f) ''image/'' \<and> file_size f \<le> 16 * 1024 * 1024 \<longrightarrow>
      handleFile f = OnFileSelect f) \<and>
   (startsWith (file_type f) ''video/'' \<and> file_size f \<le> 50 * 1024 * 1024 \<longrightarrow>
      handleFile f = OnFileSelect f) \<and>
   (\<forall>g. handleFile f = OnFileSelect g \<longrightarrow>
      g = f \<and> (startsWith (file_type f) ''image/'' \<or> startsWith (file_type f) ''video/'')) \<and>
   3 * maxSize False \<le> maxSize True \<and> maxSize True \<le> 4 * maxSize False"
  using prefix_exclusive [of "file_type f"]
  by (auto simp: handleFile_def maxSize_def maxSizeText_def)

theorem handleFile_contract_witness:
  "handleFile \<lparr>file_name = ''notes.pdf'', file_type = ''application/pdf'', file_size = 1000\<rparr>
     = Alert ''Please select an image or video file'' \<and>
   handleFile \<lparr>file_name = ''big.png'', file_type = ''image/png'', file_size = 16 * 1024 * 1024 + 1\<rparr>
     = Alert ''File too large. Maximum size is 16MB'' \<and>
   handleFile \<lparr>file_name = ''big.mp4'', file_type = ''video/mp4'', file_size = 50 * 1024 * 1024 + 1\<rparr>
     = Alert ''File too large. Maximum size is 50MB'' \<and>
   handleFile \<lparr>file_name = ''cat.png'', file_type = ''image/png'', file_size = 16 * 1024 * 1024\<rparr>
     = OnFileSelect \<lparr>file_name = ''cat.png'', file_type = ''image/png'', file_size = 16 * 1024 * 1024\<rparr> \<and>
   handleFile \<lparr>file_name = ''clip.mp4'', file_type = ''video/mp4'', file_size = 17 * 1024 * 1024\<rparr>
     = OnFileSelect \<lparr>file_name = ''clip.mp4'', file_type = ''video/mp4'', file_size = 17 * 1024 * 1024\<rparr>"
  using handleFile_contract [of "\<lparr>file_name = ''notes.pdf'', file_type = ''application/pdf'', file_size = 1000\<rparr>"]
    handleFile_contract [of "\<lparr>file_name = ''big.png'', file_type = ''image/png'', file_size = 16 * 1024 * 1024 + 1\<rparr>"]
    handleFile_contract [of "\<lparr>file_name = ''big.mp4'', file_type = ''video/mp4'', file_size = 50 * 1024 * 1024 + 1\<rparr>"]
    handleFile_contract [of "\<lparr>file_name = ''cat.png'', file_type = ''image/png'', file_size = 16 * 1024 * 1024\<rparr>"]
    handleFile_contract [of "\<lparr>file_name = ''clip.mp4'', file_type = ''video/mp4'', file_size = 17 * 1024 * 1024\<rparr>"]
  by (simp add: startsWith_def)

section \<open>The HTTP client: errors and the wait\<close>

text \<open>What the two calls return and which request they issue.\<close>

lemma detect_rejected:
  assumes "detect_reply n (length (calls n)) = (\<lambda>q. Rejected e)"
  shows "fst (detectImage f n) =
           Inl (case response e of
                  Some resp \<Rightarrow> or_text (data_error resp) ''Detection failed''
                | None \<Rightarrow> if request_sent e then ''Cannot connect to server''
                          else ''An error occurred while processing the request'')"
    and "fst (detectVideo f n) =
           Inl (case response e of
                  Some resp \<Rightarrow> or_text (data_error resp) ''Video detection failed''
                | None \<Rightarrow> if request_sent e then ''Cannot connect to server''
                          else ''An error occurred while processing the video'')"
  using assms by (simp_all add: detectImage_def detectVideo_def axios_post_def)

lemma detect_fulfilled:
  assumes "detect_reply n (length (calls n)) = (\<lambda>q. Fulfilled d)"
  shows "fst (detectImage f n) = Inr d" and "fst (detectVideo f n) = Inr d"
  using assms by (simp_all add: detectImage_def detectVideo_def axios_post_def)

lemma detect_calls:
  "calls (snd (detectImage f n)) =
     calls n @ [POST \<lparr>url = API_BASE_URL @ ''/detect'', field = ''file'', upload = f,
                      content_type = ''multipart/form-data'', timeout = None\<rparr>]"
  "calls (snd (detectVideo f n)) =
     calls n @ [POST \<lparr>url = API_BASE_URL @ ''/detect_video'', field = ''video'', upload = f,
                      content_type = ''multipart/form-data'', timeout = Some 300000\<rparr>]"
  by (simp_all add: detectImage_def detectVideo_def axios_post_def split: outcome.splits)

text \<open>
  Claim C3, as amended. A failed \<open>detectImage\<close> or \<open>detectVideo\<close> throws an error whose
  message is, in this order: when a server response was received, the error string of the
  response if it is present and not empty, else the fallback message of the call; when no
  response was received but the request was sent, the fixed message that the server cannot
  be reached; otherwise the generic message of the call. Each issues one request and no
  second one.
\<close>

theorem detect_error_taxonomy:
  assumes "detect_reply n (length (calls n)) = (\<lambda>q. Rejected e)"
  shows "(\<forall>resp m. response e = Some resp \<and> data_error resp = Some m \<and> m \<noteq> [] \<longrightarrow>
            fst (detectImage f n) = Inl m \<and> fst (detectVideo f n) = Inl m) \<and>
         (\<forall>resp. response e = Some resp \<and> (data_error resp = None \<or> data_error resp = Some []) \<longrightarrow>
            fst (detectImage f n) = Inl ''Detection failed'' \<and>
            fst (detectVideo f n) = Inl ''Video detection failed'') \<and>
         (response e = None \<and> request_sent e \<longrightarrow>
            fst (detectImage f n) = Inl ''Cannot connect to server'' \<and>
            fst (detectVideo f n) = Inl ''Cannot connect to server'') \<and>
         (response e = None \<and> \<not> request_sent e \<longrightarrow>
            fst (detectImage f n) = Inl ''An error occurred while processing the request'' \<and>
            fst (detectVideo f n) = Inl ''An error occurred while processing the video'') \<and>
         length (calls (snd (detectImage f n))) = length (calls n) + 1 \<and>
         length (calls (snd (detectVideo f n))) = length (calls n) + 1"
proof -
  have one_call: "length (calls (snd (detectImage f n))) = length (calls n) + 1"
      "length (calls (snd (detectVideo f n))) = length (calls n) + 1"
    by (simp_all add: detect_calls)
  show ?thesis
  proof (cases "response e")
    case None
    then show ?thesis
      using one_call by (simp add: detect_rejected [OF assms])
  next
    case (Some resp)
    then have "fst (detectImage f n) = Inl (or_text (data_error resp) ''Detection failed'')"
      and "fst (detectVideo f n) = Inl (or_text (data_error resp) ''Video detection failed'')"
      by (simp_all add: detect_rejected [OF assms])
    then show ?thesis
      using Some one_call by (auto simp: or_text_def)
  qed
qed

theorem detect_error_taxonomy_witness:
  "fst (detectImage photo (net_with (Rejected no_answer)
      (Rejected \<lparr>response = Some \<lparr>data_error = Some ''corrupt file''\<rparr>, request_sent = True\<rparr>)))
     = Inl ''corrupt file'' \<and>
   fst (detectVideo clip (net_with (Rejected no_answer)
      (Rejected \<lparr>response = Some \<lparr>data_error = Some ''corrupt file''\<rparr>, request_sent = True\<rparr>)))
     = Inl ''corrupt file'' \<and>
   fst (detectImage photo (net_with (Rejected no_answer)
      (Rejected \<lparr>response = Some \<lparr>data_error = None\<rparr>, request_sent = True\<rparr>)))
     = Inl ''Detection failed'' \<and>
   fst (detectVideo clip (net_with (Rejected no_answer) (Rejected no_answer)))
     = Inl ''Cannot connect to server'' \<and>
   fst (detectImage photo (net_with (Rejected no_answer)
      (Rejected \<lparr>response = None, request_sent = False\<rparr>)))
     = Inl ''An error occurred while processing the request'' \<and>
   length (calls (snd (detectVideo clip (net_with (Rejected no_answer) (Rejected no_answer))))) = 1"
proof -
  let ?server = "\<lparr>response = Some \<lparr>data_error = Some ''corrupt file''\<rparr>, request_sent = True\<rparr>"
  let ?bare = "\<lparr>response = Some \<lparr>data_error = None\<rparr>, request_sent = True\<rparr>"
  let ?unsent = "\<lparr>response = None, request_sent = False\<rparr>"
  have a: "fst (detectImage photo (net_with (Rejected no_answer) (Rejected ?server))) = Inl ''corrupt file''"
    using detect_error_taxonomy [of "net_with (Rejected no_answer) (Rejected ?server)" ?server photo]
    by (simp add: net_with_def)
  have b: "fst (detectVideo clip (net_with (Rejected no_answer) (Rejected ?server))) = Inl ''corrupt file''"
    using detect_error_taxonomy [of "net_with (Rejected no_answer) (Rejected ?server)" ?server clip]
    by (simp add: net_with_def)
  have c: "fst (detectImage photo (net_with (Rejected no_answer) (Rejected ?bare))) = Inl ''Detection failed''"
    using detect_error_taxonomy [of "net_with (Rejected no_answer) (Rejected ?bare)" ?bare photo]
    by (simp add: net_with_def)
  have d: "fst (detectVideo clip (net_with (Rejected no_answer) (Rejected no_answer))) = Inl ''Cannot connect to server''"
    "length (calls (snd (detectVideo clip (net_with (Rejected no_answer) (Rejected no_answer))))) = 1"
    using detect_error_taxonomy [of "net_with (Rejected no_answer) (Rejected no_answer)" no_answer clip]
    by (simp_all add: net_with_def no_answer_def)
  have e: "fst (detectImage photo (net_with (Rejected no_answer) (Rejected ?unsent)))
             = Inl ''An error occurred while processing the request''"
    using detect_error_taxonomy [of "net_with (Rejected no_answer) (Rejected ?unsent)" ?unsent photo]
    by (simp add: net_with_def)
  from a b c d e show ?thesis by simp
qed

text \<open>
  A server response whose error string is present and empty: the message thrown is the
  fallback, not the string.
\<close>

theorem empty_server_error_counterexample:
  "fst (detectImage photo (net_with (Rejected no_answer)
      (Rejected \<lparr>response = Some \<lparr>data_error = Some ''''\<rparr>, request_sent = True\<rparr>)))
     = Inl ''Detection failed'' \<and>
   fst (detectVideo clip (net_with (Rejected no_answer)
      (Rejected \<lparr>response = Some \<lparr>data_error = Some ''''\<rparr>, request_sent = True\<rparr>)))
     = Inl ''Video detection failed'' \<and>
   fst (detectImage photo (net_with (Rejected no_answer)
      (Rejected \<lparr>response = Some \<lparr>data_error = Some ''''\<rparr>, request_sent = True\<rparr>)))
     \<noteq> Inl ''''"
  by (simp add: detectImage_def detectVideo_def axios_post_def net_with_def or_text_def)

text \<open>
  The wait that \<open>detectVideo\<close> allows is the constant 300000 milliseconds, five minutes,
  below ten minutes; \<open>detectImage\<close> sets no timeout at all.
\<close>

theorem video_timeout_counterexample:
  "calls (snd (detectVideo clip (net_with (Rejected no_answer) (Rejected no_answer)))) =
     [POST \<lparr>url = ''http://localhost:5000/api/detect_video'', field = ''video'', upload = clip,
            content_type = ''multipart/form-data'', timeout = Some 300000\<rparr>] \<and>
   (300000 :: nat) = 5 * 60 * 1000 \<and> (300000 :: nat) < 10 * 60 * 1000 \<and>
   calls (snd (detectImage clip (net_with (Rejected no_answer) (Rejected no_answer)))) =
     [POST \<lparr>url = ''http://localhost:5000/api/detect'', field = ''file'', upload = clip,
            content_type = ''multipart/form-data'', timeout = None\<rparr>]"
  by (simp add: detectImage_def detectVideo_def axios_post_def net_with_def API_BASE_URL_def)

text \<open>
  Claim C6, as amended. \<open>detectVideo\<close> has the contract of \<open>detectImage\<close> against the
  video-detection endpoint: one request carrying the file, the body returned when the
  call is fulfilled, an error thrown when it is rejected, with the same message except for
  the wording of the two fallbacks. It sets an upper bound on the wait, the fixed constant
  300000 milliseconds (five minutes), where \<open>detectImage\<close> sets none.
\<close>

theorem detectVideo_contract:
  "calls (snd (detectVideo f n)) =
     calls n @ [POST \<lparr>url = API_BASE_URL @ ''/detect_video'', field = ''video'', upload = f,
                      content_type = ''multipart/form-data'', timeout = Some 300000\<rparr>] \<and>
   calls (snd (detectImage f n)) =
     calls n @ [POST \<lparr>url = API_BASE_URL @ ''/detect'', field = ''file'', upload = f,
                      content_type = ''multipart/form-data'', timeout = None\<rparr>] \<and>
   (\<forall>d. detect_reply n (length (calls n)) = (\<lambda>q. Fulfilled d) \<longrightarrow>
      fst (detectVideo f n) = Inr d \<and> fst (detectImage f n) = Inr d) \<and>
   (\<forall>e. detect_reply n (length (calls n)) = (\<lambda>q. Rejected e) \<longrightarrow>
      (\<exists>m. fst (detectVideo f n) = Inl m) \<and> (\<exists>m. fst (detectImage f n) = Inl m) \<and>
      (fst (detectVideo f n) = fst (detectImage f n) \<or>
       fst (detectImage f n) = Inl ''Detection failed'' \<and>
         fst (detectVideo f n) = Inl ''Video detection failed'' \<or>
       fst (detectImage f n) = Inl ''An error occurred while processing the request'' \<and>
         fst (detectVideo f n) = Inl ''An error occurred while processing the video''))"
proof (intro conjI allI impI)
  fix d
  assume "detect_reply n (length (calls n)) = (\<lambda>q. Fulfilled d)"
  then show "fst (detectVideo f n) = Inr d" and "fst (detectImage f n) = Inr d"
    by (simp_all add: detect_fulfilled)
next
  fix e
  assume r: "detect_reply n (length (calls n)) = (\<lambda>q. Rejected e)"
  show "\<exists>m. fst (detectVideo f n) = Inl m" and "\<exists>m. fst (detectImage f n) = Inl m"
    by (simp_all add: detect_rejected [OF r])
  show "fst (detectVideo f n) = fst (detectImage f n) \<or>
       fst (detectImage f n) = Inl ''Detection failed'' \<and>
         fst (detectVideo f n) = Inl ''Video detection failed'' \<or>
       fst (detectImage f n) = Inl ''An error occurred while processing the request'' \<and>
         fst (detectVideo f n) = Inl ''An error occurred while processing the video''"
    by (auto simp: detect_rejected [OF r] or_text_def split: option.splits)
qed (simp_all add: detect_calls)

theorem detectVideo_contract_witness:
  "fst (detectVideo clip (net_with (Rejected no_answer) (Fulfilled real_video_payload)))
     = Inr real_video_payload \<and>
   fst (detectImage clip (net_with (Rejected no_answer) (Fulfilled real_video_payload)))
     = Inr real_video_payload \<and>
   (\<exists>m. fst (detectVideo clip (net_with (Rejected no_answer) (Rejected no_answer))) = Inl m) \<and>
   (\<exists>m. fst (detectImage clip (net_with (Rejected no_answer) (Rejected no_answer))) = Inl m)"
proof -
  have a: "fst (detectVideo clip (net_with (Rejected no_answer) (Fulfilled real_video_payload)))
             = Inr real_video_payload"
    "fst (detectImage clip (net_with (Rejected no_answer) (Fulfilled real_video_payload)))
             = Inr real_video_payload"
    using detectVideo_contract [of clip "net_with (Rejected no_answer) (Fulfilled real_video_payload)"]
    by (simp_all add: net_with_def)
  have b: "\<exists>m. fst (detectVideo clip (net_with (Rejected no_answer) (Rejected no_answer))) = Inl m"
    "\<exists>m. fst (detectImage clip (net_with (Rejected no_answer) (Rejected no_answer))) = Inl m"
    using detectVideo_contract [of clip "net_with (Rejected no_answer) (Rejected no_answer)"]
    by (simp_all add: net_with_def)
  from a b show ?thesis by simp
qed

section \<open>The controller: health check and analysis\<close>

text \<open>
  Claim C4. The health check sets \<open>apiStatus\<close> to ready when the response has status
  ok and the detector ready, to not-ready for every other response, and to offline when
  the call throws. In the states not-ready and offline the analyze button, when it is
  shown at all, is disabled.
\<close>

theorem health_check_status:
  "(health_reply n (length (calls n)) = Fulfilled \<lparr>status = Some ''ok'', detector_ready = Some True\<rparr> \<longrightarrow>
      apiStatus (fst (checkApiHealth (s, n))) = Ready) \<and>
   (health_reply n (length (calls n)) = Fulfilled h \<and>
    \<not> (status h = Some ''ok'' \<and> detector_ready h = Some True) \<longrightarrow>
      apiStatus (fst (checkApiHealth (s, n))) = NotReady) \<and>
   (health_reply n (length (calls n)) = Rejected e \<longrightarrow>
      apiStatus (fst (checkApiHealth (s, n))) = Offline) \<and>
   (apiStatus s = NotReady \<or> apiStatus s = Offline \<longrightarrow>
      analyze_button_disabled s = None \<or> analyze_button_disabled s = Some True)"
  by (auto simp: checkApiHealth_def checkHealth_def axios_get_def analyze_button_disabled_def
      split: prod.splits sum.splits outcome.splits)

theorem health_check_status_witness:
  "apiStatus (fst (checkApiHealth (initial_state,
      net_with (Fulfilled \<lparr>status = Some ''ok'', detector_ready = Some True\<rparr>) (Rejected no_answer)))) = Ready \<and>
   apiStatus (fst (checkApiHealth (initial_state,
      net_with (Fulfilled \<lparr>status = Some ''ok'', detector_ready = Some False\<rparr>) (Rejected no_answer)))) = NotReady \<and>
   apiStatus (fst (checkApiHealth (initial_state,
      net_with (Rejected no_answer) (Rejected no_answer)))) = Offline \<and>
   analyze_button_disabled ((selected photo)\<lparr>apiStatus := NotReady\<rparr>) = Some True \<and>
   analyze_button_disabled ((selected photo)\<lparr>apiStatus := Offline\<rparr>) = Some True"
proof -
  let ?ok = "\<lparr>status = Some ''ok'', detector_ready = Some True\<rparr>"
  let ?busy = "\<lparr>status = Some ''ok'', detector_ready = Some False\<rparr>"
  have a: "apiStatus (fst (checkApiHealth (initial_state, net_with (Fulfilled ?ok) (Rejected no_answer)))) = Ready"
    using health_check_status [of "net_with (Fulfilled ?ok) (Rejected no_answer)" initial_state ?ok no_answer]
    by (simp add: net_with_def)
  have b: "apiStatus (fst (checkApiHealth (initial_state, net_with (Fulfilled ?busy) (Rejected no_answer)))) = NotReady"
    using health_check_status [of "net_with (Fulfilled ?busy) (Rejected no_answer)" initial_state ?busy no_answer]
    by (simp add: net_with_def)
  have c: "apiStatus (fst (checkApiHealth (initial_state, net_with (Rejected no_answer) (Rejected no_answer)))) = Offline"
    using health_check_status [of "net_with (Rejected no_answer) (Rejected no_answer)" initial_state ?ok no_answer]
    by (simp add: net_with_def)
  have d: "analyze_button_disabled ((selected photo)\<lparr>apiStatus := NotReady\<rparr>) = Some True"
    using health_check_status [of "net_with (Rejected no_answer) (Rejected no_answer)"
        "(selected photo)\<lparr>apiStatus := NotReady\<rparr>" ?ok no_answer]
    by (simp add: analyze_button_disabled_def selected_def initial_state_def)
  have e: "analyze_button_disabled ((selected photo)\<lparr>apiStatus := Offline\<rparr>) = Some True"
    using health_check_status [of "net_with (Rejected no_answer) (Rejected no_answer)"
        "(selected photo)\<lparr>apiStatus := Offline\<rparr>" ?ok no_answer]
    by (simp add: analyze_button_disabled_def selected_def initial_state_def)
  from a b c d e show ?thesis by simp
qed

text \<open>What \<open>handleAnalyze\<close> leaves when the call is fulfilled with the body \<open>p\<close>.\<close>

lemma handleAnalyze_fulfilled:
  assumes "selectedFile s = Some f" and "detect_reply n (length (calls n)) = (\<lambda>q. Fulfilled p)"
  shows "fst (handleAnalyze (s, n)) =
     (if success p = Some True then s\<lparr>loading := False, error_text := None, result := Some p\<rparr>
      else s\<lparr>loading := False, result := None,
              error_text := Some (or_text (error p) ''Detection failed'')\<rparr>)"
  using assms
  by (auto simp: handleAnalyze_def handleAnalyze_start_def detectVideo_def detectImage_def
      axios_post_def)

text \<open>
  Claim C2, as amended. When a file is selected, the call is fulfilled and the payload
  has \<open>success\<close> false, the controller leaves no result, clears loading, and sets the
  error to the payload's error string verbatim when that string is present and not
  empty, and to the generic message when it is absent or empty.
\<close>

theorem analyze_payload_failure:
  assumes "selectedFile s = Some f"
    and "detect_reply n (length (calls n)) = (\<lambda>q. Fulfilled p)"
    and "success p = Some False"
  shows "result (fst (handleAnalyze (s, n))) = None \<and>
     loading (fst (handleAnalyze (s, n))) = False \<and>
     (\<forall>m. error p = Some m \<and> m \<noteq> [] \<longrightarrow> error_text (fst (handleAnalyze (s, n))) = Some m) \<and>
     (error p = None \<or> error p = Some [] \<longrightarrow>
        error_text (fst (handleAnalyze (s, n))) = Some ''Detection failed'')"
  using assms(3) by (auto simp: handleAnalyze_fulfilled [OF assms(1,2)] or_text_def)

theorem analyze_payload_failure_witness:
  "error_text (fst (handleAnalyze (selected photo,
      net_with (Rejected no_answer)
        (Fulfilled (empty_result\<lparr>success := Some False, error := Some ''corrupt file''\<rparr>))))) = Some ''corrupt file'' \<and>
   result (fst (handleAnalyze (selected photo,
      net_with (Rejected no_answer)
        (Fulfilled (empty_result\<lparr>success := Some False, error := Some ''corrupt file''\<rparr>))))) = None \<and>
   error_text (fst (handleAnalyze (selected clip,
      net_with (Rejected no_answer)
        (Fulfilled (empty_result\<lparr>success := Some False, error := Some ''corrupt file''\<rparr>))))) = Some ''corrupt file'' \<and>
   error_text (fst (handleAnalyze (selected clip,
      net_with (Rejected no_answer)
        (Fulfilled (empty_result\<lparr>success := Some False\<rparr>))))) = Some ''Detection failed''"
  using analyze_payload_failure [of "selected photo" photo
      "net_with (Rejected no_answer) (Fulfilled (empty_result\<lparr>success := Some False, error := Some ''corrupt file''\<rparr>))"
      "empty_result\<lparr>success := Some False, error := Some ''corrupt file''\<rparr>"]
    analyze_payload_failure [of "selected clip" clip
      "net_with (Rejected no_answer) (Fulfilled (empty_result\<lparr>success := Some False, error := Some ''corrupt file''\<rparr>))"
      "empty_result\<lparr>success := Some False, error := Some ''corrupt file''\<rparr>"]
    analyze_payload_failure [of "selected clip" clip
      "net_with (Rejected no_answer) (Fulfilled (empty_result\<lparr>success := Some False\<rparr>))"
      "empty_result\<lparr>success := Some False\<rparr>"]
  by (simp add: selected_def initial_state_def net_with_def empty_result_def)

text \<open>
  A payload whose error string is present and empty: the controller shows the generic
  message, not the string.
\<close>

theorem empty_error_counterexample:
  "error (empty_result\<lparr>success := Some False, error := Some ''''\<rparr>) = Some '''' \<and>
   error_text (fst (handleAnalyze (selected photo,
      net_with (Rejected no_answer)
        (Fulfilled (empty_result\<lparr>success := Some False, error := Some ''''\<rparr>))))) = Some ''Detection failed'' \<and>
   error_text (fst (handleAnalyze (selected photo,
      net_with (Rejected no_answer)
        (Fulfilled (empty_result\<lparr>success := Some False, error := Some ''''\<rparr>))))) \<noteq> Some ''''"
  by (simp add: handleAnalyze_def handleAnalyze_start_def detectVideo_def detectImage_def
      axios_post_def selected_def
      initial_state_def net_with_def empty_result_def isVideo_def photo_def startsWith_def or_text_def)

section \<open>Object URLs of the previews\<close>

text \<open>Rendering adds a URL to the table when a video is selected, and releases nothing.\<close>

lemma render_table:
  "snd (render (s, t)) = (if isVideo s then t\<lparr>blobs := blobs t @ [the (selectedFile s)]\<rparr> else t)"
  by (auto simp: render_def isVideo_def VideoPreview_def createObjectURL_def split: option.splits)

lemma render_revoked [simp]: "revoked (snd (render (s, t))) = revoked t"
  by (simp add: render_table)

lemma render_blobs_length: "length (blobs t) \<le> length (blobs (snd (render (s, t))))"
  by (simp add: render_table)

text \<open>The analysis and the health check leave the file and the controller's URL alone.\<close>

lemma handleAnalyze_keeps:
  "selectedFile (fst (handleAnalyze (s, n))) = selectedFile s"
  "imageUrl (fst (handleAnalyze (s, n))) = imageUrl s"
  by (auto simp: handleAnalyze_def handleAnalyze_start_def split: option.splits prod.splits sum.splits)

lemma checkApiHealth_keeps:
  "selectedFile (fst (checkApiHealth (s, n))) = selectedFile s"
  "imageUrl (fst (checkApiHealth (s, n))) = imageUrl s"
  by (auto simp: checkApiHealth_def split: prod.splits sum.splits)

lemma isVideo_cong: "selectedFile s = selectedFile s' \<Longrightarrow> isVideo s = isVideo s'"
  by (simp add: isVideo_def)

text \<open>
  No step of the page releases a URL twice, or releases a URL that was not created: the
  controller forgets its URL when it releases it.
\<close>

lemma tidy_act: "tidy w \<Longrightarrow> tidy (act e w)"
proof (cases e)
  case HealthCheck
  assume t: "tidy w"
  show ?thesis
  proof (cases "apiStatus (app w) \<noteq> Ready")
    case True
    obtain s n where sn: "checkApiHealth (app w, network w) = (s, n)" by (cases "checkApiHealth (app w, network w)")
    have "imageUrl s = imageUrl (app w)" using checkApiHealth_keeps(2) [of "app w" "network w"] sn by simp
    with t show ?thesis
      using True sn HealthCheck render_blobs_length [of "table w" s]
      by (fastforce simp: tidy_def rendered_def)
  next
    case False
    with t HealthCheck show ?thesis by simp
  qed
next
  case (Choose f)
  assume t: "tidy w"
  show ?thesis
    using t Choose
    by (auto simp: tidy_def rendered_def handleFileSelect_def createObjectURL_def render_table
        split: intake.splits)
next
  case ClickRemove
  assume t: "tidy w"
  show ?thesis
    using t ClickRemove
    by (auto simp: tidy_def rendered_def handleRemove_def revokeObjectURL_def render_table
        split: option.splits)
next
  case ClickAnalyze
  assume t: "tidy w"
  show ?thesis
  proof (cases "analyze_button_disabled (app w) = Some False")
    case True
    obtain s n where sn: "handleAnalyze (app w, network w) = (s, n)" by (cases "handleAnalyze (app w, network w)")
    have "imageUrl s = imageUrl (app w)" using handleAnalyze_keeps(2) [of "app w" "network w"] sn by simp
    with t show ?thesis
      using True sn ClickAnalyze
      by (auto simp: tidy_def rendered_def render_table)
  next
    case False
    with t ClickAnalyze show ?thesis by simp
  qed
qed

lemma tidy_step: "tidy w \<Longrightarrow> tidy (step e w)"
  by (simp add: step_def tidy_act)

lemma tidy_run: "tidy w \<Longrightarrow> tidy (run es w)"
  by (induction es arbitrary: w) (auto simp: tidy_step)

lemma tidy_world0: "tidy (world0 n)"
  by (simp add: tidy_def world0_def initial_state_def)

lemma count_list_distinct: "distinct xs \<Longrightarrow> count_list xs x = (if x \<in> set xs then 1 else 0)"
  by (induction xs) auto

lemma never_released_twice: "releases (table (run es (world0 n))) u \<le> 1"
proof -
  have "distinct (revoked (table (run es (world0 n))))"
    using tidy_run [OF tidy_world0, of es n] by (simp add: tidy_def)
  then show ?thesis
    by (simp add: releases_def count_list_distinct)
qed

text \<open>
  In a session in which only images are chosen, every URL is released exactly once by the
  time the file is removed.
\<close>

lemma settled_act:
  assumes "settled w" and "\<forall>f. e = Choose f \<longrightarrow> \<not> startsWith (file_type f) ''video/''"
  shows "settled (act e w)"
proof (cases e)
  case HealthCheck
  obtain s n where sn: "checkApiHealth (app w, network w) = (s, n)" by (cases "checkApiHealth (app w, network w)")
  have k: "imageUrl s = imageUrl (app w)" "selectedFile s = selectedFile (app w)"
    using checkApiHealth_keeps [of "app w" "network w"] sn by simp_all
  then have v: "isVideo s = isVideo (app w)" by (simp add: isVideo_def)
  show ?thesis
    using assms(1) HealthCheck sn k v
    by (auto simp: settled_def rendered_def render_table)
next
  case (Choose f)
  show ?thesis
    using assms Choose
    by (auto simp: settled_def rendered_def handleFileSelect_def createObjectURL_def render_table
        handleFile_def isVideo_def nth_append less_Suc_eq split: intake.splits if_splits)
next
  case ClickRemove
  show ?thesis
    using assms(1) ClickRemove
    by (auto simp: settled_def rendered_def handleRemove_def revokeObjectURL_def render_table
        isVideo_def split: option.splits)
next
  case ClickAnalyze
  obtain s n where sn: "handleAnalyze (app w, network w) = (s, n)" by (cases "handleAnalyze (app w, network w)")
  have k: "imageUrl s = imageUrl (app w)" "selectedFile s = selectedFile (app w)"
    using handleAnalyze_keeps [of "app w" "network w"] sn by simp_all
  then have v: "isVideo s = isVideo (app w)" by (simp add: isVideo_def)
  have v': "isVideo (handleAnalyze_start (app w)) = isVideo (app w)"
    by (simp add: isVideo_def handleAnalyze_start_def)
  show ?thesis
    using assms(1) ClickAnalyze sn k v v'
    by (auto simp: settled_def rendered_def render_table)
qed

lemma settled_step:
  assumes "settled w" and "\<forall>f. e = Choose f \<longrightarrow> \<not> startsWith (file_type f) ''video/''"
  shows "settled (step e w)"
  using assms by (simp add: step_def settled_act)

lemma settled_run: "settled w \<Longrightarrow> image_only es \<Longrightarrow> settled (run es w)"
proof (induction es arbitrary: w)
  case Nil
  then show ?case by simp
next
  case (Cons e es)
  have "settled (step e w)"
    using Cons.prems by (intro settled_step) (auto simp: image_only_def)
  moreover have "image_only es"
    using Cons.prems(2) by (auto simp: image_only_def)
  ultimately show ?case using Cons.IH by simp
qed

lemma settled_world0: "settled (world0 n)"
  by (simp add: settled_def world0_def initial_state_def isVideo_def)

lemma image_urls_released_exactly_once:
  assumes "image_only es" and "selectedFile (app (run es (world0 n))) = None"
    and "u < length (blobs (table (run es (world0 n))))"
  shows "releases (table (run es (world0 n))) u = 1"
proof -
  have s: "settled (run es (world0 n))"
    using settled_run [OF settled_world0 assms(1)] .
  have t: "tidy (run es (world0 n))"
    using tidy_run [OF tidy_world0] .
  from s assms(2,3) have "u \<in> set (revoked (table (run es (world0 n))))"
    by (auto simp: settled_def)
  moreover from t have "distinct (revoked (table (run es (world0 n))))"
    by (simp add: tidy_def)
  ultimately show ?thesis
    by (simp add: releases_def count_list_distinct)
qed

lemma ready_net_replies:
  "health_reply (ready_net p) k = Fulfilled \<lparr>status = Some ''ok'', detector_ready = Some True\<rparr>"
  "detect_reply (ready_net p) k q = Fulfilled p"
  "calls (ready_net p) = []"
  by (simp_all add: ready_net_def net_with_def)

lemma payload_success: "success fake_873 = Some True" "success real_video_payload = Some True"
  by (simp_all add: fake_873_def real_video_payload_def empty_result_def)

lemma image_run_released:
  "selectedFile (app image_run) = None \<and> unmounted image_run = False \<and>
   blobs (table image_run) = [photo] \<and>
   revoked (table image_run) = [0] \<and> leaked (table image_run) = []"
  by (simp add: image_run_def world0_def step_def ready_net_replies payload_success initial_state_def
      rendered_def page_throws_def
      checkApiHealth_def checkHealth_def axios_get_def handleFile_def handleFileSelect_def
      createObjectURL_def render_table isVideo_def startsWith_def photo_def maxSize_def
      analyze_button_disabled_def handleAnalyze_def handleAnalyze_start_def detectImage_def
      axios_post_def handleRemove_def revokeObjectURL_def
      leaked_def releases_def)

text \<open>
  When the image renderer throws on a payload without \<open>individual_results\<close>, the page is
  gone before the file can be removed, and the controller's URL stays in the table.
\<close>

lemma page_lost_on_throw:
  "unmounted bare_image_run \<and> selectedFile (app bare_image_run) = Some photo \<and>
   revoked (table bare_image_run) = [] \<and> leaked (table bare_image_run) = [0]"
proof -
  have thrown: "isl (Results (fake_873\<lparr>individual_results := None\<rparr>))"
    using Results_unguarded_map by simp
  have ok: "success (fake_873\<lparr>individual_results := None\<rparr>) = Some True"
    by (simp add: payload_success)
  show ?thesis
    by (simp add: bare_image_run_def world0_def step_def ready_net_replies ok thrown initial_state_def
        rendered_def page_throws_def
        checkApiHealth_def checkHealth_def axios_get_def handleFile_def handleFileSelect_def
        createObjectURL_def render_table isVideo_def startsWith_def photo_def maxSize_def
        analyze_button_disabled_def handleAnalyze_def handleAnalyze_start_def detectImage_def
        axios_post_def leaked_def releases_def)
qed

text \<open>
  Claim C7 asks that the object URL of a preview is released exactly once, on the image
  and on the video path. In the video session the URL that the controller created
  (number 0) is released once, by \<open>handleRemove\<close>; the three URLs that the video preview
  created, one at each rendering (numbers 1, 2 and 3), are never released and remain in
  the table when the file is gone.
\<close>

theorem video_preview_urls_never_released:
  "selectedFile (app video_run) = None \<and> imageUrl (app video_run) = None \<and>
   blobs (table video_run) = [clip, clip, clip, clip] \<and>
   revoked (table video_run) = [0] \<and>
   releases (table video_run) 0 = 1 \<and>
   releases (table video_run) 1 = 0 \<and>
   releases (table video_run) 2 = 0 \<and>
   releases (table video_run) 3 = 0 \<and>
   leaked (table video_run) = [1, 2, 3]"
  by (simp add: video_run_def world0_def step_def ready_net_replies payload_success initial_state_def
      rendered_def page_throws_def
      checkApiHealth_def checkHealth_def axios_get_def handleFile_def handleFileSelect_def
      createObjectURL_def render_table isVideo_def startsWith_def clip_def maxSize_def
      analyze_button_disabled_def handleAnalyze_def handleAnalyze_start_def detectVideo_def
      axios_post_def handleRemove_def revokeObjectURL_def
      leaked_def releases_def upt_rec [of 0] upt_rec [of 1] upt_rec [of 2] upt_rec [of 3])

end
